theory Spec2Isabelle
  imports Complex_Main "HOL-Library.Char_ord" "HOL-Library.List_Lexorder"
    "HOL-Library.Product_Lexorder"
begin

section \<open>Python dictionaries and JSON text\<close>

text \<open>
  The records handed to the store are flat Python dictionaries with string keys
  (see \<^verbatim>\<open>ticker_data\<close> and \<^verbatim>\<open>kline_data\<close> in
  \<^verbatim>\<open>data_collectors/websocket_handler.py\<close>). A dictionary is an association
  list in insertion order. A float is carried by its \<^verbatim>\<open>repr\<close> text (\<^verbatim>\<open>nan\<close>,
  \<^verbatim>\<open>inf\<close> and \<^verbatim>\<open>-inf\<close> for the values that are not finite): the store never
  computes with the values of a record.
\<close>

datatype jval = JNull | JBool bool | JInt int | JFloat string | JStr string

type_synonym pydict = "(string \<times> jval) list"

text \<open>\<^verbatim>\<open>d[k] = v\<close>: an existing key keeps its position, a new key goes last.\<close>

fun dict_set :: "pydict \<Rightarrow> string \<Rightarrow> jval \<Rightarrow> pydict" where
  "dict_set [] k v = [(k, v)]"
| "dict_set ((k', v') # d) k v =
     (if k' = k then (k, v) # d else (k', v') # dict_set d k v)"

text \<open>\<^verbatim>\<open>d.get(k, default)\<close>\<close>

definition dict_get :: "pydict \<Rightarrow> string \<Rightarrow> jval \<Rightarrow> jval" where
  "dict_get d k dflt = (case map_of d k of None \<Rightarrow> dflt | Some v \<Rightarrow> v)"

text \<open>\<^verbatim>\<open>{**d, **e}\<close>\<close>

definition dict_merge :: "pydict \<Rightarrow> pydict \<Rightarrow> pydict" where
  "dict_merge d e = fold (\<lambda>(k, v) acc. dict_set acc k v) e d"

text \<open>
  \<^verbatim>\<open>json.dumps\<close> with its default separators. Only the quote and the backslash are
  escaped: keys and strings are taken to be printable ASCII. A finite float is written
  as its \<^verbatim>\<open>repr\<close>, the others as \<^verbatim>\<open>NaN\<close>, \<^verbatim>\<open>Infinity\<close> and \<^verbatim>\<open>-Infinity\<close>.
\<close>

fun digits :: "nat \<Rightarrow> string" where
  "digits n = (if n < 10 then [char_of (48 + n)]
               else digits (n div 10) @ [char_of (48 + n mod 10)])"

declare digits.simps [simp del]

definition escape_char :: "char \<Rightarrow> string" where
  "escape_char c = (if c = CHR 0x22 \<or> c = CHR 0x5C then [CHR 0x5C, c] else [c])"

definition json_string :: "string \<Rightarrow> string" where
  "json_string s = [CHR 0x22] @ concat (map escape_char s) @ [CHR 0x22]"

fun json_value :: "jval \<Rightarrow> string" where
  "json_value JNull = ''null''"
| "json_value (JBool b) = (if b then ''true'' else ''false'')"
| "json_value (JInt i) = (if i < 0 then ''-'' @ digits (nat (- i)) else digits (nat i))"
| "json_value (JFloat r) =
     (if r = ''nan'' then ''NaN'' else if r = ''inf'' then ''Infinity''
      else if r = ''-inf'' then ''-Infinity'' else r)"
| "json_value (JStr s) = json_string s"

fun json_items :: "pydict \<Rightarrow> string" where
  "json_items [] = []"
| "json_items [(k, v)] = json_string k @ '': '' @ json_value v"
| "json_items ((k, v) # d) = json_string k @ '': '' @ json_value v @ '', '' @ json_items d"

definition json_dumps :: "pydict \<Rightarrow> string" where
  "json_dumps d = ''{'' @ json_items d @ ''}''"

text \<open>
  A JSON text kept by a backend is represented by the dictionary it encodes, so that
  \<^verbatim>\<open>json.loads\<close> of a stored text is the stored dictionary; \<open>json_dumps\<close> gives the
  bytes of the text where a backend orders texts.
\<close>

text \<open>The exceptions that the modelled code raises.\<close>

datatype error = DataError | IntegrityError | OverflowError | ValueError

section \<open>The Redis backend\<close>

text \<open>
  The clock is read in milliseconds, the resolution at which Redis keeps a deadline; the
  server is taken to share the clock of the caller. A key holds its value and the
  millisecond at which it expires: \<^verbatim>\<open>expire(key, ttl)\<close> at the instant \<open>now\<close> sets the
  deadline \<open>now + ttl * 1000\<close> (\<open>ttl\<close> is in seconds), and a key is gone once the clock
  is past its deadline. A sorted set is the list of its (member, score) pairs with
  pairwise different members.
\<close>

type_synonym zset = "(pydict \<times> int) list"

record redis_state =
  hashes :: "string \<rightharpoonup> (pydict \<times> int)"
  zsets :: "string \<rightharpoonup> (zset \<times> int)"

definition redis_empty :: redis_state where
  "redis_empty = \<lparr>hashes = Map.empty, zsets = Map.empty\<rparr>"

definition live :: "int \<Rightarrow> ('a \<times> int) option \<Rightarrow> 'a option" where
  "live now e = (case e of None \<Rightarrow> None
                 | Some (v, deadline) \<Rightarrow> if now \<le> deadline then Some v else None)"

text \<open>
  The client encodes every value of a command before it sends anything: a string or a
  number is accepted, \<^verbatim>\<open>None\<close> or a \<^verbatim>\<open>bool\<close> raises \<^verbatim>\<open>redis.DataError\<close>.
\<close>

definition encodable :: "jval \<Rightarrow> bool" where
  "encodable v = (case v of JNull \<Rightarrow> False | JBool b \<Rightarrow> False | _ \<Rightarrow> True)"

text \<open>\<^verbatim>\<open>hset(key, mapping=m)\<close>: the fields of \<open>m\<close> are written into the hash at \<open>key\<close>;
  the deadline of a key that is still there is kept, a new key has none yet (it is given
  one by the \<^verbatim>\<open>expire\<close> that follows every \<^verbatim>\<open>hset\<close> of the store).\<close>

definition hset :: "int \<Rightarrow> string \<Rightarrow> pydict \<Rightarrow> redis_state \<Rightarrow> error + redis_state" where
  "hset now key m r =
     (if list_all (\<lambda>(k, v). encodable v) m then
        Inr (case hashes r key of
               None \<Rightarrow> r\<lparr>hashes := (hashes r)(key \<mapsto> (m, now))\<rparr>
             | Some (h, deadline) \<Rightarrow>
                 if now \<le> deadline
                 then r\<lparr>hashes := (hashes r)(key \<mapsto> (dict_merge h m, deadline))\<rparr>
                 else r\<lparr>hashes := (hashes r)(key \<mapsto> (m, now))\<rparr>)
      else Inl DataError)"

text \<open>\<^verbatim>\<open>zadd(key, {member: score})\<close>: a member already in the set gets the new score,
  a new member is added.\<close>

fun zset_add :: "zset \<Rightarrow> pydict \<Rightarrow> int \<Rightarrow> zset" where
  "zset_add [] m s = [(m, s)]"
| "zset_add ((m', s') # z) m s =
     (if m' = m then (m, s) # z else (m', s') # zset_add z m s)"

definition zadd :: "int \<Rightarrow> string \<Rightarrow> pydict \<Rightarrow> int \<Rightarrow> redis_state \<Rightarrow> redis_state" where
  "zadd now key m s r =
     (case zsets r key of
        None \<Rightarrow> r\<lparr>zsets := (zsets r)(key \<mapsto> ([(m, s)], now))\<rparr>
      | Some (z, deadline) \<Rightarrow>
          if now \<le> deadline then r\<lparr>zsets := (zsets r)(key \<mapsto> (zset_add z m s, deadline))\<rparr>
          else r\<lparr>zsets := (zsets r)(key \<mapsto> ([(m, s)], now))\<rparr>)"

text \<open>\<^verbatim>\<open>expire(key, ttl)\<close> on the hash and on the sorted set of a key name.\<close>

definition expire_hash :: "int \<Rightarrow> string \<Rightarrow> int \<Rightarrow> redis_state \<Rightarrow> redis_state" where
  "expire_hash now key ttl r =
     (case live now (hashes r key) of
        None \<Rightarrow> r
      | Some h \<Rightarrow> r\<lparr>hashes := (hashes r)(key \<mapsto> (h, now + ttl * 1000))\<rparr>)"

definition expire_zset :: "int \<Rightarrow> string \<Rightarrow> int \<Rightarrow> redis_state \<Rightarrow> redis_state" where
  "expire_zset now key ttl r =
     (case live now (zsets r key) of
        None \<Rightarrow> r
      | Some z \<Rightarrow> r\<lparr>zsets := (zsets r)(key \<mapsto> (z, now + ttl * 1000))\<rparr>)"

text \<open>
  \<^verbatim>\<open>zrevrange(key, start, stop, withscores=True)\<close>: the members from the highest score
  down, equal scores by the bytes of the member; a negative index counts from the end
  and both ends are inclusive.
\<close>

definition zset_desc :: "zset \<Rightarrow> zset" where
  "zset_desc z = rev (sort_key (\<lambda>(m, s). (s, json_dumps m)) z)"

definition zrange_slice :: "'a list \<Rightarrow> int \<Rightarrow> int \<Rightarrow> 'a list" where
  "zrange_slice xs start stop =
     (let n = int (length xs);
          s0 = (if start < 0 then n + start else start);
          e0 = (if stop < 0 then n + stop else stop);
          s = (if s0 < 0 then 0 else s0)
      in if s > e0 \<or> s \<ge> n then []
         else let e = (if e0 \<ge> n then n - 1 else e0)
              in take (nat (e - s + 1)) (drop (nat s) xs))"

definition zrevrange :: "int \<Rightarrow> string \<Rightarrow> int \<Rightarrow> int \<Rightarrow> redis_state \<Rightarrow> zset" where
  "zrevrange now key start stop r =
     (case live now (zsets r key) of
        None \<Rightarrow> []
      | Some z \<Rightarrow> zrange_slice (zset_desc z) start stop)"

section \<open>The SQLite backend\<close>

text \<open>
  The table \<^verbatim>\<open>crypto_data\<close> of \<^verbatim>\<open>database/schema.py\<close>: its rows in insertion order.
  Every column is \<^verbatim>\<open>NOT NULL\<close> and \<^verbatim>\<open>(symbol, interval, timestamp)\<close> is
  \<^verbatim>\<open>UNIQUE\<close>; an \<^verbatim>\<open>INSERT\<close> that breaks a constraint raises
  \<^verbatim>\<open>sqlite3.IntegrityError\<close> and leaves the table as it was.

  The parameters are bound before the statement runs. An integer outside 64 bits cannot
  be bound and raises \<^verbatim>\<open>OverflowError\<close>; \<^verbatim>\<open>None\<close> is bound as \<^verbatim>\<open>NULL\<close>, and so
  is a float NaN.
\<close>

record crypto_row =
  row_id :: nat
  row_symbol :: string
  row_interval :: string
  row_price :: jval
  row_volume :: jval
  row_high :: jval
  row_low :: jval
  row_timestamp :: int
  row_data_json :: pydict

type_synonym sqlite_state = "crypto_row list"

definition same_key :: "string \<Rightarrow> string \<Rightarrow> int \<Rightarrow> crypto_row \<Rightarrow> bool" where
  "same_key symbol interval ts row =
     (row_symbol row = symbol \<and> row_interval row = interval \<and> row_timestamp row = ts)"

definition next_id :: "sqlite_state \<Rightarrow> nat" where
  "next_id tbl = Suc (fold max (map row_id tbl) 0)"

definition bind_overflows :: "jval \<Rightarrow> bool" where
  "bind_overflows v =
     (case v of JInt i \<Rightarrow> i < - (2 ^ 63) \<or> 2 ^ 63 \<le> i | _ \<Rightarrow> False)"

definition binds_null :: "jval \<Rightarrow> bool" where
  "binds_null v = (v = JNull \<or> v = JFloat ''nan'')"

definition insert_crypto ::
  "string \<Rightarrow> string \<Rightarrow> jval \<Rightarrow> jval \<Rightarrow> jval \<Rightarrow> jval \<Rightarrow> int \<Rightarrow> pydict \<Rightarrow> sqlite_state
     \<Rightarrow> error + sqlite_state" where
  "insert_crypto symbol interval price volume high low ts dj tbl =
     (if list_ex bind_overflows [price, volume, high, low, JInt ts] then Inl OverflowError
      else if list_ex binds_null [price, volume, high, low] then Inl IntegrityError
      else if list_ex (same_key symbol interval ts) tbl then Inl IntegrityError
      else Inr (tbl @ [\<lparr>row_id = next_id tbl, row_symbol = symbol, row_interval = interval,
                        row_price = price, row_volume = volume, row_high = high,
                        row_low = low, row_timestamp = ts, row_data_json = dj\<rparr>]))"

text \<open>
  \<^verbatim>\<open>SELECT * FROM crypto_data WHERE symbol = ? AND interval = ?
  ORDER BY timestamp DESC LIMIT ?\<close>; a negative \<^verbatim>\<open>LIMIT\<close> is no limit in SQLite.
\<close>

definition sql_limit :: "int \<Rightarrow> 'a list \<Rightarrow> 'a list" where
  "sql_limit n xs = (if n < 0 then xs else take (nat n) xs)"

definition select_crypto :: "string \<Rightarrow> string \<Rightarrow> int \<Rightarrow> sqlite_state \<Rightarrow> crypto_row list" where
  "select_crypto symbol interval limit tbl =
     sql_limit limit
       (rev (sort_key row_timestamp
          (filter (\<lambda>row. row_symbol row = symbol \<and> row_interval row = interval) tbl)))"

section \<open>DatabaseManager\<close>

record db_manager =
  use_redis :: bool
  redis_client :: redis_state
  sqlite_conn :: sqlite_state

definition redis_manager :: db_manager where
  "redis_manager = \<lparr>use_redis = True, redis_client = redis_empty, sqlite_conn = []\<rparr>"

definition sqlite_manager :: db_manager where
  "sqlite_manager = \<lparr>use_redis = False, redis_client = redis_empty, sqlite_conn = []\<rparr>"

definition crypto_key :: "string \<Rightarrow> string \<Rightarrow> string" where
  "crypto_key symbol interval = ''crypto:'' @ symbol @ '':'' @ interval"

definition ts_key :: "string \<Rightarrow> string \<Rightarrow> string" where
  "ts_key symbol interval = ''ts:crypto:'' @ symbol @ '':'' @ interval"

definition ttl_multiplier :: "string \<Rightarrow> int" where
  "ttl_multiplier interval =
     (if interval = ''1m'' then 60 * 24
      else if interval = ''5m'' then 60 * 24 * 3
      else if interval = ''15m'' then 60 * 24 * 7
      else if interval = ''1h'' then 60 * 24 * 30
      else if interval = ''4h'' then 60 * 24 * 90
      else if interval = ''1d'' then 60 * 24 * 365
      else 60 * 24 * 7)"

text \<open>
  \<^verbatim>\<open>int(time.time())\<close> for a clock reading in milliseconds: the whole seconds,
  truncated towards zero.
\<close>

definition unix_seconds :: "int \<Rightarrow> int" where
  "unix_seconds clock = (if clock < 0 then - ((- clock) div 1000) else clock div 1000)"

text \<open>
  \<^verbatim>\<open>store_crypto_data(symbol, interval, data)\<close>; \<open>now\<close> is the reading of the clock at
  the call, in milliseconds.
\<close>

definition store_crypto_data ::
  "db_manager \<Rightarrow> int \<Rightarrow> string \<Rightarrow> string \<Rightarrow> pydict \<Rightarrow> error + db_manager" where
  "store_crypto_data db now symbol interval data =
     (let key = crypto_key symbol interval;
          timestamp = unix_seconds now;
          data_with_timestamp = dict_merge data [(''timestamp'', JInt timestamp)]
      in if use_redis db then
           (case hset now key data_with_timestamp (redis_client db) of
              Inl e \<Rightarrow> Inl e
            | Inr r1 \<Rightarrow>
                let ttl = ttl_multiplier interval;
                    tsk = ts_key symbol interval;
                    r2 = expire_hash now key ttl r1;
                    r3 = zadd now tsk data timestamp r2;
                    r4 = expire_zset now tsk ttl r3
                in Inr (db\<lparr>redis_client := r4\<rparr>))
         else
           (case insert_crypto symbol interval
                   (dict_get data ''price'' (JInt 0)) (dict_get data ''volume'' (JInt 0))
                   (dict_get data ''high'' (JInt 0)) (dict_get data ''low'' (JInt 0))
                   timestamp data (sqlite_conn db) of
              Inl e \<Rightarrow> Inl e
            | Inr tbl \<Rightarrow> Inr (db\<lparr>sqlite_conn := tbl\<rparr>)))"

text \<open>
  The key of the final \<^verbatim>\<open>sorted(data_list, key=lambda x: x["timestamp"])\<close>. Every
  element of \<^verbatim>\<open>data_list\<close> has just been given an integer \<^verbatim>\<open>timestamp\<close>, so the last
  case is never taken there.
\<close>

definition timestamp_of :: "pydict \<Rightarrow> int" where
  "timestamp_of d = (case map_of d ''timestamp'' of Some (JInt t) \<Rightarrow> t | _ \<Rightarrow> 0)"

text \<open>\<^verbatim>\<open>get_crypto_data(symbol, interval, limit)\<close>, read at the clock reading \<open>now\<close>
  (in milliseconds).\<close>

definition get_crypto_data ::
  "db_manager \<Rightarrow> int \<Rightarrow> string \<Rightarrow> string \<Rightarrow> int \<Rightarrow> pydict list" where
  "get_crypto_data db now symbol interval limit =
     (if use_redis db then
        let result = zrevrange now (ts_key symbol interval) 0 (limit - 1) (redis_client db);
            data_list = map (\<lambda>(data_json, timestamp).
                               dict_set data_json ''timestamp'' (JInt timestamp)) result
        in sort_key timestamp_of data_list
      else
        let rows = select_crypto symbol interval limit (sqlite_conn db);
            data_list = map (\<lambda>row. dict_set (row_data_json row) ''timestamp''
                                      (JInt (row_timestamp row))) rows
        in sort_key timestamp_of data_list)"

text \<open>
  A caller's sequence of writes \<open>(now, symbol, interval, data)\<close>, \<open>now\<close> in milliseconds.
  A write that raises leaves the store as it was and the caller goes on (the stream
  handlers catch every exception of a message).
\<close>

definition put :: "db_manager \<Rightarrow> int \<times> string \<times> string \<times> pydict \<Rightarrow> db_manager" where
  "put db w = (case w of (now, symbol, interval, data) \<Rightarrow>
                 (case store_crypto_data db now symbol interval data of
                    Inl e \<Rightarrow> db | Inr db' \<Rightarrow> db'))"

definition run_stores ::
  "db_manager \<Rightarrow> (int \<times> string \<times> string \<times> pydict) list \<Rightarrow> db_manager" where
  "run_stores db ws = fold (\<lambda>w d. put d w) ws db"

section \<open>WebSocketManager\<close>

text \<open>
  The manager of \<^verbatim>\<open>data_collectors/websocket_handler.py\<close>. Its four dictionaries are
  maps by connection name; a \<^verbatim>\<open>threading.Event\<close> is reached only through
  \<^verbatim>\<open>stop_events[name]\<close>, so it is the flag stored there. The threads of the manager are
  interleaved at the calls that block: what runs between two blocking calls is one step.
  \<open>sleeping\<close> holds the \<^verbatim>\<open>_on_close_wrapper\<close> calls that are inside
  \<^verbatim>\<open>time.sleep(interval)\<close>, \<open>attempts\<close> logs every connection thread started.
\<close>

record ws_manager =
  connections :: "string \<rightharpoonup> nat"
  callbacks :: "string \<rightharpoonup> nat"
  stop_events :: "string \<rightharpoonup> bool"
  reconnect_intervals :: "string \<rightharpoonup> int"
  sleeping :: "(string \<times> string) list"
  attempts :: "(string \<times> string) list"

definition ws_manager_init :: ws_manager where
  "ws_manager_init = \<lparr>connections = Map.empty, callbacks = Map.empty, stop_events = Map.empty,
                       reconnect_intervals = Map.empty, sleeping = [], attempts = []\<rparr>"

text \<open>\<^verbatim>\<open>_start_connection_thread\<close>: a new \<^verbatim>\<open>WebSocketApp\<close> is created, registered
  under the name and run.\<close>

definition start_connection_thread :: "string \<Rightarrow> string \<Rightarrow> ws_manager \<Rightarrow> ws_manager" where
  "start_connection_thread name url m =
     m\<lparr>connections := (connections m)(name \<mapsto> length (attempts m)),
       attempts := attempts m @ [(name, url)]\<rparr>"

definition close_connection :: "string \<Rightarrow> ws_manager \<Rightarrow> ws_manager" where
  "close_connection name m =
     (if name \<in> dom (connections m) then
        let m1 = (if name \<in> dom (stop_events m)
                  then m\<lparr>stop_events := (stop_events m)(name \<mapsto> True)\<rparr> else m)
        in m1\<lparr>connections := (connections m1)(name := None)\<rparr>
      else m)"

definition add_connection :: "string \<Rightarrow> string \<Rightarrow> nat \<Rightarrow> int \<Rightarrow> ws_manager \<Rightarrow> ws_manager" where
  "add_connection name url on_message reconnect_interval m =
     (let m1 = (if name \<in> dom (connections m) then close_connection name m else m);
          m2 = m1\<lparr>stop_events := (stop_events m1)(name \<mapsto> False),
                  callbacks := (callbacks m1)(name \<mapsto> on_message),
                  reconnect_intervals := (reconnect_intervals m1)(name \<mapsto> reconnect_interval)\<rparr>
      in start_connection_thread name url m2)"

text \<open>\<^verbatim>\<open>_on_close_wrapper\<close> up to its \<^verbatim>\<open>time.sleep(interval)\<close>: the stop event is
  read here, before the sleep.\<close>

definition on_close_wrapper :: "string \<Rightarrow> string \<Rightarrow> ws_manager \<Rightarrow> ws_manager" where
  "on_close_wrapper name url m =
     (if stop_events m name = Some False then m\<lparr>sleeping := sleeping m @ [(name, url)]\<rparr>
      else m)"

text \<open>\<^verbatim>\<open>_on_close_wrapper\<close> from the return of \<^verbatim>\<open>time.sleep\<close>: the one statement left
  is \<^verbatim>\<open>self._start_connection_thread(name, url, subscription_msg)\<close>.\<close>

definition sleep_elapsed :: "string \<Rightarrow> string \<Rightarrow> ws_manager \<Rightarrow> ws_manager" where
  "sleep_elapsed name url m =
     (if (name, url) \<in> set (sleeping m)
      then start_connection_thread name url (m\<lparr>sleeping := remove1 (name, url) (sleeping m)\<rparr>)
      else m)"

datatype ws_event =
    AddConnection string string nat int
  | CloseConnection string
  | SocketClosed string string
  | SleepElapsed string string

fun ws_step :: "ws_manager \<Rightarrow> ws_event \<Rightarrow> ws_manager" where
  "ws_step m (AddConnection name url cb iv) = add_connection name url cb iv m"
| "ws_step m (CloseConnection name) = close_connection name m"
| "ws_step m (SocketClosed name url) = on_close_wrapper name url m"
| "ws_step m (SleepElapsed name url) = sleep_elapsed name url m"

definition ws_run :: "ws_event list \<Rightarrow> ws_manager" where
  "ws_run evs = fold (\<lambda>e m. ws_step m e) evs ws_manager_init"

section \<open>TrendDetector\<close>

text \<open>
  The indicator functions of \<^verbatim>\<open>analysis/trend_detector.py\<close>. A candle is a record
  with every column present. Python floats are real numbers here and every operation
  is exact: rounding is not modelled. Two numbers that differ in the model can be the
  same float in the code, and a sum that is exactly zero in the model can be a small
  residue in the code. The two special values that the code tests for are: NaN is
  \<open>None\<close>, and the places where a division by zero gives an infinity are written out.
\<close>

record candle =
  c_timestamp :: int
  c_open :: real
  c_high :: real
  c_low :: real
  c_close :: real
  c_volume :: real

datatype rval = Str string | Num real

type_synonym result = "(string \<times> rval) list"

text \<open>\<^verbatim>\<open>Series.rolling(window=w).mean()\<close> at position \<open>j\<close>: NaN until \<open>w\<close> values
  are there (and everywhere for \<open>w = 0\<close>), then the exact mean of the window. The
  routine of pandas updates a running float sum, so its result is this mean up to
  rounding.\<close>

definition rolling_mean :: "nat \<Rightarrow> real list \<Rightarrow> nat \<Rightarrow> real option" where
  "rolling_mean w xs j =
     (if w = 0 \<or> j + 1 < w \<or> length xs \<le> j then None
      else Some (sum_list (take w (drop (j + 1 - w) xs)) / real w))"

definition mean :: "real list \<Rightarrow> real" where
  "mean xs = sum_list xs / real (length xs)"

text \<open>The exact sample standard deviation (\<^verbatim>\<open>ddof=1\<close>) of at least two values; the
  rolling routine of pandas gives it up to rounding, also for a constant window, where
  the exact value is 0.\<close>

definition sample_std :: "real list \<Rightarrow> real" where
  "sample_std xs = sqrt (sum_list (map (\<lambda>x. (x - mean xs)\<^sup>2) xs) / real (length xs - 1))"

definition rolling_std :: "nat \<Rightarrow> real list \<Rightarrow> nat \<Rightarrow> real option" where
  "rolling_std w xs j =
     (if w < 2 \<or> j + 1 < w \<or> length xs \<le> j then None
      else Some (sample_std (take w (drop (j + 1 - w) xs))))"

definition series_max :: "real list \<Rightarrow> real" where
  "series_max xs = fold max (tl xs) (hd xs)"

definition series_min :: "real list \<Rightarrow> real" where
  "series_min xs = fold min (tl xs) (hd xs)"

text \<open>The branches on \<^verbatim>\<open>last_sma\<close> and \<^verbatim>\<open>prev_sma\<close>; a comparison with NaN is false.\<close>

definition price_trend :: "real option \<Rightarrow> real option \<Rightarrow> string \<times> real" where
  "price_trend last_sma prev_sma =
     (case (last_sma, prev_sma) of
        (Some l, Some p) \<Rightarrow>
          if l > p then (''uptrend'', if p > 0 then min 1 ((l - p) / p * 5) else 1 / 2)
          else if l < p then (''downtrend'', if p > 0 then min 1 ((p - l) / p * 5) else 1 / 2)
          else (''sideways'', 1 / 10)
      | _ \<Rightarrow> (''sideways'', 1 / 10))"

text \<open>
  \<^verbatim>\<open>detect_price_trends(data, window)\<close>. \<^verbatim>\<open>rolling\<close> raises \<^verbatim>\<open>ValueError\<close> for a
  negative window. \<^verbatim>\<open>iloc[-window]\<close> is position \<open>n - window\<close>, and position 0 for
  window 0.
\<close>

definition detect_price_trends :: "candle list \<Rightarrow> int \<Rightarrow> error + result" where
  "detect_price_trends data window =
     (if data = [] \<or> int (length data) < window then
        Inr [(''trend'', Str ''unknown''), (''strength'', Num 0), (''support'', Num 0),
             (''resistance'', Num 0)]
      else if window < 0 then Inl ValueError
      else
        let n = length data;
            w = nat window;
            closes = map c_close data;
            ts = (if n > w
                  then price_trend (rolling_mean w closes (n - 1))
                         (rolling_mean w closes (if w = 0 then 0 else n - w))
                  else (''unknown'', 0));
            recent_data = drop (n - 20) data;
            resistance = series_max (map c_high recent_data);
            support = series_min (map c_low recent_data);
            last_close = last closes;
            resistance_distance =
              (if last_close > 0 then (resistance - last_close) / last_close * 100 else 0);
            support_distance =
              (if last_close > 0 then (last_close - support) / last_close * 100 else 0)
        in Inr [(''trend'', Str (fst ts)), (''strength'', Num (snd ts)),
                (''last_close'', Num last_close), (''support'', Num support),
                (''resistance'', Num resistance), (''support_distance'', Num support_distance),
                (''resistance_distance'', Num resistance_distance)])"

definition volume_trend :: "real option \<Rightarrow> real option \<Rightarrow> string \<times> real" where
  "volume_trend last_vol_sma prev_vol_sma =
     (case (last_vol_sma, prev_vol_sma) of
        (Some l, Some p) \<Rightarrow>
          if l > p * (12 / 10) then (''increasing'', if p > 0 then min 1 ((l - p) / p) else 1 / 2)
          else if l < p * (8 / 10) then (''decreasing'', if p > 0 then min 1 ((p - l) / p) else 1 / 2)
          else (''stable'', 1 / 10)
      | _ \<Rightarrow> (''stable'', 1 / 10))"

text \<open>The loop that collects a relative price change and a volume for every position
  whose previous close is positive.\<close>

fun price_volume_pairs :: "candle list \<Rightarrow> (real \<times> real) list" where
  "price_volume_pairs (a # b # rest) =
     (if c_close a > 0 then [(\<bar>c_close b - c_close a\<bar> / c_close a, c_volume b)] else [])
       @ price_volume_pairs (b # rest)"
| "price_volume_pairs [a] = []"
| "price_volume_pairs [] = []"

text \<open>\<^verbatim>\<open>np.corrcoef(xs, ys)[0, 1]\<close>: NaN when one of the variances is zero.\<close>

definition corrcoef :: "real list \<Rightarrow> real list \<Rightarrow> real option" where
  "corrcoef xs ys =
     (let cxy = sum_list (map2 (\<lambda>x y. (x - mean xs) * (y - mean ys)) xs ys);
          cxx = sum_list (map (\<lambda>x. (x - mean xs)\<^sup>2) xs);
          cyy = sum_list (map (\<lambda>y. (y - mean ys)\<^sup>2) ys)
      in if cxx = 0 \<or> cyy = 0 then None else Some (cxy / sqrt (cxx * cyy)))"

definition detect_volume_trends :: "candle list \<Rightarrow> int \<Rightarrow> error + result" where
  "detect_volume_trends data window =
     (if data = [] \<or> int (length data) < window then
        Inr [(''trend'', Str ''unknown''), (''strength'', Num 0)]
      else if window < 0 then Inl ValueError
      else
        let n = length data;
            w = nat window;
            volumes = map c_volume data;
            ts = (if n > w
                  then volume_trend (rolling_mean w volumes (n - 1))
                         (rolling_mean w volumes (if w = 0 then 0 else n - w))
                  else (''unknown'', 0));
            pairs = price_volume_pairs data;
            correlation =
              (if length pairs > 5
               then (case corrcoef (map fst pairs) (map snd pairs) of None \<Rightarrow> 0 | Some c \<Rightarrow> c)
               else 0)
        in Inr [(''trend'', Str (fst ts)), (''strength'', Num (snd ts)),
                (''avg_volume'', Num (mean volumes)),
                (''price_volume_correlation'', Num correlation)])"

text \<open>\<^verbatim>\<open>delta = close.diff()\<close> from position 1 on; position 0 is NaN and becomes 0 in
  both \<^verbatim>\<open>gain\<close> and \<^verbatim>\<open>loss\<close>, since \<^verbatim>\<open>where\<close> replaces what fails the test.\<close>

definition diffs :: "real list \<Rightarrow> real list" where
  "diffs xs = map2 (\<lambda>a b. b - a) xs (tl xs)"

definition gains :: "real list \<Rightarrow> real list" where
  "gains closes = 0 # map (\<lambda>d. if d > 0 then d else 0) (diffs closes)"

definition losses :: "real list \<Rightarrow> real list" where
  "losses closes = 0 # map (\<lambda>d. - (if d < 0 then d else 0)) (diffs closes)"

text \<open>
  \<^verbatim>\<open>rsi = 100 - (100 / (1 + avg_gain / avg_loss))\<close>. The averages are means of numbers
  that are not negative. With \<^verbatim>\<open>avg_loss\<close> zero the quotient is infinite and the RSI is
  100, or it is 0/0 and the RSI is NaN.
\<close>

definition rsi_value :: "real option \<Rightarrow> real option \<Rightarrow> real option" where
  "rsi_value avg_gain avg_loss =
     (case (avg_gain, avg_loss) of
        (Some g, Some l) \<Rightarrow>
          if l = 0 then (if g = 0 then None else Some 100)
          else Some (100 - 100 / (1 + g / l))
      | _ \<Rightarrow> None)"

definition rsi_at :: "real list \<Rightarrow> nat \<Rightarrow> real option" where
  "rsi_at closes j =
     rsi_value (rolling_mean 14 (gains closes) j) (rolling_mean 14 (losses closes) j)"

text \<open>\<^verbatim>\<open>Series.ewm(span=span, adjust=False).mean()\<close>\<close>

fun ewm_scan :: "real \<Rightarrow> real \<Rightarrow> real list \<Rightarrow> real list" where
  "ewm_scan \<alpha> y [] = [y]"
| "ewm_scan \<alpha> y (x # xs) = y # ewm_scan \<alpha> ((1 - \<alpha>) * y + \<alpha> * x) xs"

definition ewm_mean :: "real \<Rightarrow> real list \<Rightarrow> real list" where
  "ewm_mean span_n xs =
     (case xs of [] \<Rightarrow> [] | x # rest \<Rightarrow> ewm_scan (2 / (span_n + 1)) x rest)"

definition momentum_zone :: "real option \<Rightarrow> real option \<Rightarrow> string" where
  "momentum_zone r1 r2 =
     (case r1 of
        None \<Rightarrow> ''neutral''
      | Some a \<Rightarrow>
          if a > 70 then ''overbought''
          else if a < 30 then ''oversold''
          else if a > 50 \<and> (case r2 of None \<Rightarrow> False | Some b \<Rightarrow> b \<le> 50) then ''bullish_crossover''
          else if a < 50 \<and> (case r2 of None \<Rightarrow> False | Some b \<Rightarrow> b \<ge> 50) then ''bearish_crossover''
          else ''neutral'')"

definition macd_state :: "real \<Rightarrow> real \<Rightarrow> real \<Rightarrow> real \<Rightarrow> string" where
  "macd_state m1 s1 m2 s2 =
     (if m1 > s1 \<and> m2 \<le> s2 then ''bullish_crossover''
      else if m1 < s1 \<and> m2 \<ge> s2 then ''bearish_crossover''
      else if m1 > 0 then ''bullish''
      else if m1 < 0 then ''bearish''
      else ''neutral'')"

text \<open>\<^verbatim>\<open>detect_momentum(data)\<close>; \<^verbatim>\<open>iloc[-k]\<close> is position \<open>n - k\<close>, in range here
  since \<open>n \<ge> 14\<close>.\<close>

definition detect_momentum :: "candle list \<Rightarrow> result" where
  "detect_momentum data =
     (if data = [] \<or> length data < 14 then [(''rsi'', Num 0), (''momentum'', Num 0)]
      else
        let df = sort_key c_timestamp data;
            n = length df;
            closes = map c_close df;
            r1 = rsi_at closes (n - 1);
            r2 = rsi_at closes (n - 2);
            c10 = closes ! (n - 10);
            momentum = (if c10 > 0 then (last closes - c10) / c10 else 0);
            ema12 = ewm_mean 12 closes;
            ema26 = ewm_mean 26 closes;
            macd = map2 (\<lambda>a b. a - b) ema12 ema26;
            signal = ewm_mean 9 macd;
            histogram = map2 (\<lambda>a b. a - b) macd signal
        in [(''rsi'', Num (case r1 of None \<Rightarrow> 50 | Some r \<Rightarrow> r)),
            (''macd'', Num (last macd)),
            (''macd_signal'', Num (last signal)),
            (''macd_histogram'', Num (last histogram)),
            (''momentum'', Num momentum),
            (''momentum_trend'', Str (momentum_zone r1 r2)),
            (''macd_trend'', Str (macd_state (last macd) (last signal)
                                   (macd ! (n - 2)) (signal ! (n - 2))))])"

text \<open>
  \<^verbatim>\<open>returns = close.pct_change().dropna()\<close> and its annualised standard deviation. After
  a close of zero the change is NaN (dropped) when the next close is zero too, infinite
  otherwise; an infinite return, or fewer than two returns, makes the deviation NaN.
\<close>

definition volatility_of :: "real list \<Rightarrow> real option" where
  "volatility_of closes =
     (let pairs = zip closes (tl closes);
          returns = map (\<lambda>(p, c). (c - p) / p) (filter (\<lambda>(p, c). p \<noteq> 0) pairs)
      in if list_ex (\<lambda>(p, c). p = 0 \<and> c \<noteq> 0) pairs \<or> length returns < 2 then None
         else Some (sample_std returns * sqrt 252))"

text \<open>The true range; at position 0 the two columns that use the previous close
  are NaN and \<^verbatim>\<open>max(axis=1)\<close> skips them.\<close>

definition true_ranges :: "candle list \<Rightarrow> real list" where
  "true_ranges data =
     (case data of
        [] \<Rightarrow> []
      | a # rest \<Rightarrow>
          (c_high a - c_low a) #
            map2 (\<lambda>p c. max (c_high c - c_low c)
                          (max \<bar>c_high c - c_close p\<bar> \<bar>c_low c - c_close p\<bar>)) data rest)"

text \<open>The Bollinger bands \<open>(lower_band, upper_band)\<close> at the last position; NaN for
  fewer than 20 candles.\<close>

definition bollinger_bands :: "candle list \<Rightarrow> (real \<times> real) option" where
  "bollinger_bands data =
     (let closes = map c_close data; n = length data
      in case (rolling_mean 20 closes (n - 1), rolling_std 20 closes (n - 1)) of
           (Some sma20, Some std20) \<Rightarrow> Some (sma20 - std20 * 2, sma20 + std20 * 2)
         | _ \<Rightarrow> None)"

definition volatility_trend :: "real option \<Rightarrow> real option \<Rightarrow> string" where
  "volatility_trend recent_vol older_vol =
     (case (recent_vol, older_vol) of
        (Some r, Some ol) \<Rightarrow>
          if r > ol * (12 / 10) then ''increasing''
          else if r < ol * (8 / 10) then ''decreasing''
          else ''stable''
      | _ \<Rightarrow> ''stable'')"

definition detect_volatility :: "candle list \<Rightarrow> result" where
  "detect_volatility data =
     (if data = [] \<or> length data < 5 then [(''volatility'', Num 0), (''atr'', Num 0)]
      else
        let n = length data;
            closes = map c_close data;
            volatility = volatility_of closes;
            tr = true_ranges data;
            atr = rolling_mean 14 tr (n - 1);
            sma20 = rolling_mean 20 closes (n - 1);
            bands = bollinger_bands data;
            last_close = last closes;
            bb_position =
              (case bands of
                 None \<Rightarrow> 1 / 2
               | Some (lower_band, upper_band) \<Rightarrow>
                   if upper_band - lower_band > 0
                   then (last_close - lower_band) / (upper_band - lower_band) else 1 / 2);
            bb_width =
              (case (bands, sma20) of
                 (Some (lower_band, upper_band), Some m) \<Rightarrow>
                   if m > 0 then (upper_band - lower_band) / m else 0
               | _ \<Rightarrow> 0);
            recent_vol = rolling_mean 5 tr (n - 1);
            older_vol = (if n \<ge> 19 then rolling_mean 14 tr (n - 5) else recent_vol)
        in [(''volatility'', Num (case volatility of None \<Rightarrow> 0 | Some v \<Rightarrow> v)),
            (''atr'', Num (case atr of None \<Rightarrow> 0 | Some a \<Rightarrow> a)),
            (''bollinger_width'', Num bb_width),
            (''bollinger_position'', Num bb_position),
            (''volatility_trend'', Str (volatility_trend recent_vol older_vol))])"

text \<open>A candle with the given close; high and low 2 percent around it, as in the tests.\<close>

definition candle_at :: "int \<Rightarrow> real \<Rightarrow> candle" where
  "candle_at t c = \<lparr>c_timestamp = t, c_open = c * (99 / 100), c_high = c * (102 / 100),
                    c_low = c * (98 / 100), c_close = c, c_volume = 1000000\<rparr>"

text \<open>Hourly candles with the given closes.\<close>

definition candles :: "real list \<Rightarrow> candle list" where
  "candles cs = map (\<lambda>(k, c). candle_at (3600 * int k) c) (enumerate 0 cs)"

section \<open>Properties of the store\<close>

lemma timestamp_of_dict_set [simp]:
  "timestamp_of (dict_set d ''timestamp'' (JInt t)) = t"
proof -
  have "map_of (dict_set d k v) k = Some v" for k and v :: jval
    by (induction d) auto
  then show ?thesis
    by (simp add: timestamp_of_def)
qed

text \<open>
  C2. For every backend state, every clock reading, symbol, interval and limit, the list
  returned by \<open>get_crypto_data\<close> is sorted ascending by the timestamp of its elements.
\<close>

theorem get_crypto_data_sorted:
  "sorted (map timestamp_of (get_crypto_data db now symbol interval limit))"
  by (simp add: get_crypto_data_def Let_def)

text \<open>
  C1. Two candles with the same (symbol, interval, timestamp) should leave one retrievable
  record. On the Redis backend two different payloads written within the same clock second
  (here at 100.2 s and 100.7 s) are both kept: \<open>get_crypto_data\<close> returns two records
  with the same timestamp. On the SQLite backend the second write is rejected and one
  record is returned.
\<close>

theorem redis_same_second_two_records:
  "get_crypto_data
     (run_stores redis_manager
        [(100200, ''BTC'', ''1h'', [(''close'', JInt 1)]),
         (100700, ''BTC'', ''1h'', [(''close'', JInt 2)])])
     101000 ''BTC'' ''1h'' 100 =
   [[(''close'', JInt 2), (''timestamp'', JInt 100)],
    [(''close'', JInt 1), (''timestamp'', JInt 100)]] \<and>
   store_crypto_data
     (run_stores sqlite_manager [(100200, ''BTC'', ''1h'', [(''close'', JInt 1)])])
     100700 ''BTC'' ''1h'' [(''close'', JInt 2)] = Inl IntegrityError \<and>
   get_crypto_data
     (run_stores sqlite_manager
        [(100200, ''BTC'', ''1h'', [(''close'', JInt 1)]),
         (100700, ''BTC'', ''1h'', [(''close'', JInt 2)])])
     101000 ''BTC'' ''1h'' 100 =
   [[(''close'', JInt 1), (''timestamp'', JInt 100)]]"
proof -
  have "store_crypto_data
          (run_stores sqlite_manager [(100200, ''BTC'', ''1h'', [(''close'', JInt 1)])])
          100700 ''BTC'' ''1h'' [(''close'', JInt 2)] = Inl IntegrityError"
    by (simp add: run_stores_def put_def store_crypto_data_def sqlite_manager_def
        insert_crypto_def dict_get_def same_key_def unix_seconds_def bind_overflows_def
        binds_null_def Let_def)
  moreover have "get_crypto_data
     (run_stores redis_manager
        [(100200, ''BTC'', ''1h'', [(''close'', JInt 1)]),
         (100700, ''BTC'', ''1h'', [(''close'', JInt 2)])])
     101000 ''BTC'' ''1h'' 100 =
   [[(''close'', JInt 2), (''timestamp'', JInt 100)],
    [(''close'', JInt 1), (''timestamp'', JInt 100)]]"
    by code_simp
  moreover have "get_crypto_data
     (run_stores sqlite_manager
        [(100200, ''BTC'', ''1h'', [(''close'', JInt 1)]),
         (100700, ''BTC'', ''1h'', [(''close'', JInt 2)])])
     101000 ''BTC'' ''1h'' 100 =
   [[(''close'', JInt 1), (''timestamp'', JInt 100)]]"
    by code_simp
  ultimately show ?thesis by (intro conjI)
qed

text \<open>
  C10. The same record written at two different arrival seconds should be stored as two
  entries. On the Redis backend the second write only moves the score of the member that
  is already there: one entry is returned, under the later second. On the SQLite backend
  two entries are returned.
\<close>

theorem redis_same_payload_one_entry:
  "get_crypto_data
     (run_stores redis_manager
        [(100200, ''BTC'', ''1h'', [(''close'', JInt 1)]),
         (101200, ''BTC'', ''1h'', [(''close'', JInt 1)])])
     102000 ''BTC'' ''1h'' 100 =
   [[(''close'', JInt 1), (''timestamp'', JInt 101)]] \<and>
   get_crypto_data
     (run_stores sqlite_manager
        [(100200, ''BTC'', ''1h'', [(''close'', JInt 1)]),
         (101200, ''BTC'', ''1h'', [(''close'', JInt 1)])])
     102000 ''BTC'' ''1h'' 100 =
   [[(''close'', JInt 1), (''timestamp'', JInt 100)],
    [(''close'', JInt 1), (''timestamp'', JInt 101)]]"
  by code_simp

text \<open>
  C3. The same calls against a Redis-backed and a SQLite-backed manager should give the
  same reads. They do not: after one payload written at two seconds, and after two
  payloads written within one second, \<open>get_crypto_data\<close> returns different lists on the
  two backends.
\<close>

theorem backends_differ:
  "get_crypto_data
      (run_stores redis_manager
         [(100200, ''BTC'', ''1h'', [(''close'', JInt 1)]),
          (101200, ''BTC'', ''1h'', [(''close'', JInt 1)])])
      102000 ''BTC'' ''1h'' 100
    \<noteq> get_crypto_data
      (run_stores sqlite_manager
         [(100200, ''BTC'', ''1h'', [(''close'', JInt 1)]),
          (101200, ''BTC'', ''1h'', [(''close'', JInt 1)])])
      102000 ''BTC'' ''1h'' 100 \<and>
   get_crypto_data
      (run_stores redis_manager
         [(100200, ''BTC'', ''1h'', [(''close'', JInt 1)]),
          (100700, ''BTC'', ''1h'', [(''close'', JInt 2)])])
      101000 ''BTC'' ''1h'' 100
    \<noteq> get_crypto_data
      (run_stores sqlite_manager
         [(100200, ''BTC'', ''1h'', [(''close'', JInt 1)]),
          (100700, ''BTC'', ''1h'', [(''close'', JInt 2)])])
      101000 ''BTC'' ''1h'' 100"
  by code_simp

text \<open>
  C4. A candle should no longer be retrievable once its age exceeds the retention age of
  its tier. For the tier \<open>1m\<close> the table gives 1440, which reaches \<^verbatim>\<open>expire\<close> as
  seconds. A candle written at 0.5 s is gone from the Redis backend at 1441 s; the SQLite
  backend, which sets no expiry at all, still returns it at 1441 s and at 1000000000 s.
\<close>

theorem sqlite_candle_outlives_retention:
  "ttl_multiplier ''1m'' = 1440 \<and>
   get_crypto_data (run_stores redis_manager [(500, ''BTC'', ''1m'', [(''close'', JInt 1)])])
     1441000 ''BTC'' ''1m'' 100 = [] \<and>
   get_crypto_data (run_stores sqlite_manager [(500, ''BTC'', ''1m'', [(''close'', JInt 1)])])
     1441000 ''BTC'' ''1m'' 100 = [[(''close'', JInt 1), (''timestamp'', JInt 0)]] \<and>
   get_crypto_data (run_stores sqlite_manager [(500, ''BTC'', ''1m'', [(''close'', JInt 1)])])
     1000000000000 ''BTC'' ''1m'' 100 = [[(''close'', JInt 1), (''timestamp'', JInt 0)]]"
  by code_simp

section \<open>Properties of the stream manager\<close>

text \<open>
  C5. After \<^verbatim>\<open>close_connection(name)\<close> no further connection should be attempted, also
  when the close comes while \<^verbatim>\<open>_on_close_wrapper\<close> is in its reconnect sleep. The stop
  event is read before the sleep only: a socket closes, the wrapper goes to sleep, the
  connection is closed (the stop event is set, one attempt so far), and when the sleep is
  over a second connection is started.
\<close>

theorem close_during_reconnect_wait:
  "stop_events (ws_run [AddConnection ''s'' ''u'' 0 30, SocketClosed ''s'' ''u'',
                        CloseConnection ''s'']) ''s'' = Some True \<and>
   attempts (ws_run [AddConnection ''s'' ''u'' 0 30, SocketClosed ''s'' ''u'',
                     CloseConnection ''s'']) = [(''s'', ''u'')] \<and>
   attempts (ws_run [AddConnection ''s'' ''u'' 0 30, SocketClosed ''s'' ''u'',
                     CloseConnection ''s'', SleepElapsed ''s'' ''u'']) =
     [(''s'', ''u''), (''s'', ''u'')]"
  by code_simp

section \<open>Properties of the indicators\<close>

text \<open>
  C6, as stated, fails: for an input shorter than its lookback, \<open>detect_momentum\<close> and
  \<open>detect_volatility\<close> return two zeros and no classification at all.
\<close>

theorem short_input_counterexample:
  "detect_momentum [] = [(''rsi'', Num 0), (''momentum'', Num 0)] \<and>
   map_of (detect_momentum []) ''momentum_trend'' = None \<and>
   detect_volatility [] = [(''volatility'', Num 0), (''atr'', Num 0)] \<and>
   map_of (detect_volatility []) ''volatility_trend'' = None"
  by (simp add: detect_momentum_def detect_volatility_def)

text \<open>
  C6, amended. For an input shorter than the window, \<open>detect_price_trends\<close> and
  \<open>detect_volume_trends\<close> return, without raising, the trend \<open>unknown\<close> with strength 0
  (and support and resistance 0). For fewer than 14 candles \<open>detect_momentum\<close> returns
  an RSI of 0 and a momentum of 0, and for fewer than 5 candles \<open>detect_volatility\<close>
  returns a volatility of 0 and an ATR of 0; these two carry no classification.
\<close>

theorem short_input_results:
  "(int (length data) < window \<longrightarrow>
      detect_price_trends data window =
        Inr [(''trend'', Str ''unknown''), (''strength'', Num 0), (''support'', Num 0),
             (''resistance'', Num 0)] \<and>
      detect_volume_trends data window = Inr [(''trend'', Str ''unknown''), (''strength'', Num 0)]) \<and>
   (length data < 14 \<longrightarrow> detect_momentum data = [(''rsi'', Num 0), (''momentum'', Num 0)]) \<and>
   (length data < 5 \<longrightarrow> detect_volatility data = [(''volatility'', Num 0), (''atr'', Num 0)])"
  by (simp add: detect_price_trends_def detect_volume_trends_def detect_momentum_def
      detect_volatility_def)

theorem short_input_results_witness:
  "int (length [candle_at 0 1]) < 5 \<and> length [candle_at 0 1] < 14 \<and> length [candle_at 0 1] < 5 \<and>
   detect_price_trends [candle_at 0 1] 5 =
     Inr [(''trend'', Str ''unknown''), (''strength'', Num 0), (''support'', Num 0),
          (''resistance'', Num 0)] \<and>
   detect_volume_trends [candle_at 0 1] 5 = Inr [(''trend'', Str ''unknown''), (''strength'', Num 0)] \<and>
   detect_momentum [candle_at 0 1] = [(''rsi'', Num 0), (''momentum'', Num 0)] \<and>
   detect_volatility [candle_at 0 1] = [(''volatility'', Num 0), (''atr'', Num 0)]"
  using short_input_results [of "[candle_at 0 1]" 5] by simp

lemma rolling_mean_nonneg:
  assumes "\<And>x. x \<in> set xs \<Longrightarrow> 0 \<le> x" and "rolling_mean w xs j = Some m"
  shows "0 \<le> m"
proof -
  have "0 \<le> sum_list (take w (drop (j + 1 - w) xs))"
    by (rule sum_list_nonneg) (meson assms(1) in_set_dropD in_set_takeD)
  then show ?thesis
    using assms(2) by (auto simp: rolling_mean_def split: if_splits)
qed

lemma gains_nonneg: "x \<in> set (gains cs) \<Longrightarrow> 0 \<le> x"
  by (auto simp: gains_def)

lemma losses_nonneg: "x \<in> set (losses cs) \<Longrightarrow> 0 \<le> x"
  by (auto simp: losses_def)

lemma rsi_value_range:
  assumes "0 \<le> g" and "0 \<le> l" and "rsi_value (Some g) (Some l) = Some r"
  shows "0 \<le> r \<and> r \<le> 100"
proof (cases "l = 0")
  case True
  then show ?thesis using assms(3) by (auto simp: rsi_value_def split: if_splits)
next
  case False
  then have l: "0 < l" using assms(2) by simp
  have q: "0 \<le> g / l" using assms(1) l by simp
  have r: "r = 100 - 100 / (1 + g / l)"
    using assms(3) False by (simp add: rsi_value_def)
  have "0 < 100 / (1 + g / l)" using q by simp
  moreover have "100 / (1 + g / l) \<le> 100 / 1"
    using q by (intro divide_left_mono) simp_all
  ultimately show ?thesis using r by simp
qed

lemma rsi_at_range:
  assumes "rsi_at cs j = Some r"
  shows "0 \<le> r \<and> r \<le> 100"
proof -
  obtain g l where g: "rolling_mean 14 (gains cs) j = Some g"
    and l: "rolling_mean 14 (losses cs) j = Some l"
    using assms by (auto simp: rsi_at_def rsi_value_def split: option.splits)
  have "0 \<le> g" using rolling_mean_nonneg [OF gains_nonneg g] .
  moreover have "0 \<le> l" using rolling_mean_nonneg [OF losses_nonneg l] .
  ultimately show ?thesis
    using assms rsi_value_range [of g l r] by (simp add: rsi_at_def g l)
qed

text \<open>
  C7. For every sequence of at least 14 candles the \<open>rsi\<close> returned by
  \<open>detect_momentum\<close> lies within 0 and 100 (in exact arithmetic).
\<close>

theorem rsi_in_range:
  assumes "14 \<le> length data"
  shows "\<exists>r. map_of (detect_momentum data) ''rsi'' = Some (Num r) \<and> 0 \<le> r \<and> r \<le> 100"
proof -
  let ?cs = "map c_close (sort_key c_timestamp data)"
  let ?r1 = "rsi_at ?cs (length data - 1)"
  have m: "map_of (detect_momentum data) ''rsi'' = Some (Num (case ?r1 of None \<Rightarrow> 50 | Some r \<Rightarrow> r))"
    using assms by (auto simp: detect_momentum_def Let_def)
  show ?thesis
  proof (cases ?r1)
    case None
    then show ?thesis using m by simp
  next
    case (Some r)
    then show ?thesis using m rsi_at_range [OF Some] by simp
  qed
qed

theorem rsi_in_range_witness:
  "14 \<le> length (candles [100, 101, 102, 103, 104, 105, 106, 107, 108, 109, 110, 111, 112, 113]) \<and>
   (\<exists>r. map_of (detect_momentum
                  (candles [100, 101, 102, 103, 104, 105, 106, 107, 108, 109, 110, 111, 112, 113]))
            ''rsi'' = Some (Num r) \<and> 0 \<le> r \<and> r \<le> 100)"
proof -
  have h: "14 \<le> length (candles [100, 101, 102, 103, 104, 105, 106, 107, 108, 109, 110, 111, 112, 113])"
    by (simp add: candles_def)
  show ?thesis
    by (rule conjI [OF h rsi_in_range [OF h]])
qed

lemma sum_list_window:
  fixes xs :: "real list"
  assumes "k + w \<le> length xs"
  shows "sum_list (take w (drop k xs)) = (\<Sum>i<w. xs ! (k + i))"
proof -
  have "sum_list (take w (drop k xs)) = (\<Sum>i = 0..<w. take w (drop k xs) ! i)"
    using assms by (simp add: sum_list_sum_nth)
  also have "\<dots> = (\<Sum>i = 0..<w. xs ! (k + i))"
    using assms by (intro sum.cong) simp_all
  finally show ?thesis by (simp add: lessThan_atLeast0)
qed

lemma window_sum_less:
  fixes xs :: "real list"
  assumes "a + w \<le> length xs" and "b + w \<le> length xs" and "0 < w"
    and "\<And>i. i < w \<Longrightarrow> xs ! (a + i) < xs ! (b + i)"
  shows "sum_list (take w (drop a xs)) < sum_list (take w (drop b xs))"
proof -
  have "(\<Sum>i<w. xs ! (a + i)) < (\<Sum>i<w. xs ! (b + i))"
    using assms(3,4) by (intro sum_strict_mono) auto
  then show ?thesis
    using assms(1,2) by (simp add: sum_list_window)
qed

lemma rolling_means_at_ends:
  assumes "2 \<le> w" and "2 * w \<le> length xs"
  shows "rolling_mean w xs (length xs - 1) = Some (sum_list (take w (drop (length xs - w) xs)) / real w)"
    and "rolling_mean w xs (length xs - w) =
           Some (sum_list (take w (drop (length xs + 1 - 2 * w) xs)) / real w)"
proof -
  have "length xs - 1 + 1 - w = length xs - w" using assms by simp
  then show "rolling_mean w xs (length xs - 1) =
               Some (sum_list (take w (drop (length xs - w) xs)) / real w)"
    using assms by (auto simp: rolling_mean_def)
  have "length xs - w + 1 - w = length xs + 1 - 2 * w" using assms by simp
  then show "rolling_mean w xs (length xs - w) =
               Some (sum_list (take w (drop (length xs + 1 - 2 * w) xs)) / real w)"
    using assms by (auto simp: rolling_mean_def)
qed

lemma price_trend_cases:
  "(fst (price_trend (Some l) (Some p)) = ''uptrend'') = (p < l)"
  "(fst (price_trend (Some l) (Some p)) = ''downtrend'') = (l < p)"
  "(fst (price_trend (Some l) (Some p)) = ''sideways'') = (l = p)"
  "0 < snd (price_trend (Some l) (Some p))"
  by (auto simp: price_trend_def)

lemma detect_price_trends_fields:
  assumes "2 \<le> window" and "2 * window \<le> int (length data)"
  shows "\<exists>r. detect_price_trends data window = Inr r \<and>
             map_of r ''trend'' =
               Some (Str (fst (price_trend
                  (rolling_mean (nat window) (map c_close data) (length data - 1))
                  (rolling_mean (nat window) (map c_close data) (length data - nat window))))) \<and>
             map_of r ''strength'' =
               Some (Num (snd (price_trend
                  (rolling_mean (nat window) (map c_close data) (length data - 1))
                  (rolling_mean (nat window) (map c_close data) (length data - nat window)))))"
proof -
  have "data \<noteq> []" "\<not> int (length data) < window" "\<not> window < 0" "nat window < length data"
    "nat window \<noteq> 0"
    using assms by auto
  then show ?thesis
    by (simp add: detect_price_trends_def Let_def)
qed

text \<open>
  C8, as stated, fails for the window 1: the two averages that are compared are then the
  same last close, and two strictly increasing closes are classified \<open>sideways\<close>.
\<close>

theorem window_one_sideways:
  "sorted_wrt (<) (map c_close (candles [1, 2])) \<and>
   2 * 1 \<le> int (length (candles [1, 2])) \<and>
   detect_price_trends (candles [1, 2]) 1 =
     Inr [(''trend'', Str ''sideways''), (''strength'', Num (1 / 10)), (''last_close'', Num 2),
          (''support'', Num (49 / 50)), (''resistance'', Num (51 / 25)),
          (''support_distance'', Num 51), (''resistance_distance'', Num 2)]"
  by (simp add: candles_def candle_at_def detect_price_trends_def Let_def rolling_mean_def
      price_trend_def series_max_def series_min_def)

text \<open>
  C8, amended. For a window \<open>W\<close> of at least 2 and at least \<open>2 * W\<close> candles,
  \<open>detect_price_trends\<close> returns without raising, with a strength above 0, and classifies
  by comparing the \<open>W\<close>-period average of the closes at the last position with the one
  at position \<open>length - W\<close>: \<open>uptrend\<close> exactly when the last average is the greater,
  \<open>downtrend\<close> exactly when it is the smaller, \<open>sideways\<close> exactly when the two are
  equal. In exact arithmetic the last average is the greater for strictly increasing
  closes, which are then classified \<open>uptrend\<close>, and the smaller for strictly decreasing
  closes, which are then classified \<open>downtrend\<close>. (The averages of the model are exact;
  the floats of the code can round two such averages to the same number, and the result
  is then \<open>sideways\<close>.)
\<close>

theorem monotone_closes_trend:
  assumes "2 \<le> window" and "2 * window \<le> int (length data)"
  shows "\<exists>r tr s l p.
           detect_price_trends data window = Inr r \<and>
           map_of r ''trend'' = Some (Str tr) \<and>
           map_of r ''strength'' = Some (Num s) \<and>
           rolling_mean (nat window) (map c_close data) (length data - 1) = Some l \<and>
           rolling_mean (nat window) (map c_close data) (length data - nat window) = Some p \<and>
           (tr = ''uptrend'' \<longleftrightarrow> p < l) \<and>
           (tr = ''downtrend'' \<longleftrightarrow> l < p) \<and>
           (tr = ''sideways'' \<longleftrightarrow> l = p) \<and>
           0 < s \<and>
           (sorted_wrt (<) (map c_close data) \<longrightarrow> p < l \<and> tr = ''uptrend'') \<and>
           (sorted_wrt (>) (map c_close data) \<longrightarrow> l < p \<and> tr = ''downtrend'')"
proof -
  let ?w = "nat window"
  let ?xs = "map c_close data"
  let ?n = "length ?xs"
  have w: "2 \<le> ?w" "2 * ?w \<le> ?n" using assms by auto
  let ?l = "sum_list (take ?w (drop (?n - ?w) ?xs)) / real ?w"
  let ?p = "sum_list (take ?w (drop (?n + 1 - 2 * ?w) ?xs)) / real ?w"
  have rm: "rolling_mean ?w ?xs (length data - 1) = Some ?l"
    "rolling_mean ?w ?xs (length data - ?w) = Some ?p"
    using rolling_means_at_ends [OF w] by simp_all
  have b: "?n + 1 - 2 * ?w + ?w \<le> ?n" "?n - ?w + ?w \<le> ?n" "0 < ?w"
    using w by auto
  have idx: "?n + 1 - 2 * ?w + i < ?n - ?w + i" "?n - ?w + i < ?n" if "i < ?w" for i
    using w that by auto
  obtain r where r: "detect_price_trends data window = Inr r"
    "map_of r ''trend'' = Some (Str (fst (price_trend (Some ?l) (Some ?p))))"
    "map_of r ''strength'' = Some (Num (snd (price_trend (Some ?l) (Some ?p))))"
    using detect_price_trends_fields [OF assms] rm by auto
  have up: "?p < ?l" if inc: "sorted_wrt (<) ?xs"
  proof -
    have "sum_list (take ?w (drop (?n + 1 - 2 * ?w) ?xs)) < sum_list (take ?w (drop (?n - ?w) ?xs))"
      using b
    proof (rule window_sum_less)
      fix i assume "i < ?w"
      then show "?xs ! (?n + 1 - 2 * ?w + i) < ?xs ! (?n - ?w + i)"
        using sorted_wrt_nth_less [OF inc idx] by blast
    qed
    then show ?thesis using b(3) by (simp add: divide_strict_right_mono)
  qed
  have down: "?l < ?p" if dec: "sorted_wrt (>) ?xs"
  proof -
    have "sum_list (take ?w (drop (?n - ?w) ?xs)) < sum_list (take ?w (drop (?n + 1 - 2 * ?w) ?xs))"
      using b(2,1,3)
    proof (rule window_sum_less)
      fix i assume "i < ?w"
      then show "?xs ! (?n - ?w + i) < ?xs ! (?n + 1 - 2 * ?w + i)"
        using sorted_wrt_nth_less [OF dec idx] by blast
    qed
    then show ?thesis using b(3) by (simp add: divide_strict_right_mono)
  qed
  define tr where "tr = fst (price_trend (Some ?l) (Some ?p))"
  define s where "s = snd (price_trend (Some ?l) (Some ?p))"
  have c: "(tr = ''uptrend'') = (?p < ?l)" "(tr = ''downtrend'') = (?l < ?p)"
    "(tr = ''sideways'') = (?l = ?p)" "0 < s"
    unfolding tr_def s_def by (rule price_trend_cases)+
  have r2: "map_of r ''trend'' = Some (Str tr)"
    using r(2) by (simp only: tr_def)
  have r3: "map_of r ''strength'' = Some (Num s)"
    using r(3) by (simp only: s_def)
  have u: "sorted_wrt (<) ?xs \<longrightarrow> ?p < ?l \<and> tr = ''uptrend''"
    using up c(1) by blast
  have d: "sorted_wrt (>) ?xs \<longrightarrow> ?l < ?p \<and> tr = ''downtrend''"
    using down c(2) by blast
  show ?thesis
    by (rule exI [of _ r], rule exI [of _ tr], rule exI [of _ s], rule exI [of _ ?l],
        rule exI [of _ ?p]) (use r(1) r2 r3 rm c u d in blast)
qed

theorem monotone_closes_trend_witness:
  "(2::int) \<le> 2 \<and> 2 * 2 \<le> int (length (candles [1, 2, 3, 4])) \<and>
   sorted_wrt (<) (map c_close (candles [1, 2, 3, 4])) \<and>
   (\<exists>r s. detect_price_trends (candles [1, 2, 3, 4]) 2 = Inr r \<and>
          map_of r ''trend'' = Some (Str ''uptrend'') \<and>
          map_of r ''strength'' = Some (Num s) \<and> 0 < s) \<and>
   2 * 2 \<le> int (length (candles [4, 3, 2, 1])) \<and>
   sorted_wrt (>) (map c_close (candles [4, 3, 2, 1])) \<and>
   (\<exists>r. detect_price_trends (candles [4, 3, 2, 1]) 2 = Inr r \<and>
        map_of r ''trend'' = Some (Str ''downtrend''))"
proof -
  have w: "(2::int) \<le> 2" by simp
  have n1: "2 * 2 \<le> int (length (candles [1, 2, 3, 4]))"
    and n2: "2 * 2 \<le> int (length (candles [4, 3, 2, 1]))"
    by (simp_all add: candles_def)
  have up: "sorted_wrt (<) (map c_close (candles [1, 2, 3, 4]))"
    and down: "sorted_wrt (>) (map c_close (candles [4, 3, 2, 1]))"
    by (simp_all add: candles_def candle_at_def)
  have a: "\<exists>r s. detect_price_trends (candles [1, 2, 3, 4]) 2 = Inr r \<and>
          map_of r ''trend'' = Some (Str ''uptrend'') \<and>
          map_of r ''strength'' = Some (Num s) \<and> 0 < s"
    using monotone_closes_trend [OF w n1] up by blast
  have b: "\<exists>r. detect_price_trends (candles [4, 3, 2, 1]) 2 = Inr r \<and>
        map_of r ''trend'' = Some (Str ''downtrend'')"
    using monotone_closes_trend [OF w n2] down by blast
  show ?thesis
    using w n1 n2 up down a b by (intro conjI)
qed

lemma sample_std_nonneg: "0 \<le> sample_std xs"
proof -
  have "0 \<le> sum_list (map (\<lambda>x. (x - mean xs)\<^sup>2) xs)"
    by (rule sum_list_nonneg) auto
  then show ?thesis by (simp add: sample_std_def)
qed

lemma bollinger_position_field:
  assumes "20 \<le> length data" and "bollinger_bands data = Some (lower, upper)"
  shows "map_of (detect_volatility data) ''bollinger_position'' =
           Some (Num (if upper - lower > 0
                      then (c_close (last data) - lower) / (upper - lower) else 1 / 2))"
proof -
  have "data \<noteq> []" "\<not> length data < 5" using assms(1) by auto
  then show ?thesis
    using assms(2) by (simp add: detect_volatility_def Let_def last_map)
qed

lemma bollinger_position_sample:
  "map_of (detect_volatility (candles
     [100, 100, 100, 100, 100, 100, 100, 100, 100, 100,
      100, 100, 100, 100, 100, 100, 95, 99, 99, 107]))
     ''bollinger_position'' = Some (Num (11 / 8))"
  by (simp add: detect_volatility_def Let_def bollinger_bands_def rolling_mean_def rolling_std_def
      sample_std_def mean_def candles_def candle_at_def power2_eq_square)

text \<open>
  C9, as stated, fails: the position is not clamped. With sixteen closes of 100 followed
  by 95, 99, 99 and 107 the 20-period mean is 100 and the deviation 2, so the band is
  96 to 104 and the position of the last close is 11/8.
\<close>

theorem bollinger_position_above_one:
  "20 \<le> length (candles
     [100, 100, 100, 100, 100, 100, 100, 100, 100, 100,
      100, 100, 100, 100, 100, 100, 95, 99, 99, 107]) \<and>
   map_of (detect_volatility (candles
     [100, 100, 100, 100, 100, 100, 100, 100, 100, 100,
      100, 100, 100, 100, 100, 100, 95, 99, 99, 107]))
     ''bollinger_position'' = Some (Num (11 / 8))"
  using bollinger_position_sample by (simp add: candles_def)

text \<open>
  C9, amended. For at least 20 candles, with the lower and the upper band that the code
  computes (the mean of the last 20 closes minus and plus twice their sample deviation):
  \<open>bollinger_position\<close> is (close - lower) / (upper - lower) when the width of the band
  is positive and 1/2 when the width is zero. So it lies within 0 and 1 when the latest
  close lies within the band, is below 0 when the close is under the lower band and
  above 1 when it is over the upper band. (The deviation of the model is exact, zero for
  a constant window; the rolling deviation of the code can keep a rounding residue there,
  and the quotient then applies.)
\<close>

theorem bollinger_position_range:
  assumes "20 \<le> length data"
  shows "\<exists>lower upper p.
           bollinger_bands data = Some (lower, upper) \<and>
           lower = mean (drop (length data - 20) (map c_close data))
                     - 2 * sample_std (drop (length data - 20) (map c_close data)) \<and>
           upper = mean (drop (length data - 20) (map c_close data))
                     + 2 * sample_std (drop (length data - 20) (map c_close data)) \<and>
           lower \<le> upper \<and>
           map_of (detect_volatility data) ''bollinger_position'' = Some (Num p) \<and>
           (0 < upper - lower \<longrightarrow> p = (c_close (last data) - lower) / (upper - lower)) \<and>
           (upper - lower = 0 \<longrightarrow> p = 1 / 2) \<and>
           (lower \<le> c_close (last data) \<and> c_close (last data) \<le> upper \<longrightarrow> 0 \<le> p \<and> p \<le> 1) \<and>
           (lower < upper \<and> c_close (last data) < lower \<longrightarrow> p < 0) \<and>
           (lower < upper \<and> upper < c_close (last data) \<longrightarrow> 1 < p)"
proof -
  let ?win = "drop (length data - 20) (map c_close data)"
  define lower where "lower = mean ?win - 2 * sample_std ?win"
  define upper where "upper = mean ?win + 2 * sample_std ?win"
  have len: "length ?win = 20" using assms by simp
  have tk: "take 20 (drop (length data - 1 + 1 - 20) (map c_close data)) = ?win"
    using assms len by simp
  have "rolling_mean 20 (map c_close data) (length data - 1) = Some (mean ?win)"
    using assms tk len by (auto simp: rolling_mean_def mean_def)
  moreover have "rolling_std 20 (map c_close data) (length data - 1) = Some (sample_std ?win)"
    using assms tk by (auto simp: rolling_std_def)
  ultimately have b: "bollinger_bands data = Some (lower, upper)"
    by (simp add: bollinger_bands_def Let_def lower_def upper_def)
  have le: "lower \<le> upper"
    using sample_std_nonneg [of ?win] by (simp add: lower_def upper_def)
  define c where "c = c_close (last data)"
  define p where "p = (if upper - lower > 0 then (c - lower) / (upper - lower) else 1 / 2)"
  have f: "map_of (detect_volatility data) ''bollinger_position'' = Some (Num p)"
    using bollinger_position_field [OF assms b] by (simp add: p_def c_def)
  have q: "0 < upper - lower \<longrightarrow> p = (c - lower) / (upper - lower)" by (simp add: p_def)
  have z: "upper - lower = 0 \<longrightarrow> p = 1 / 2" by (simp add: p_def)
  have inside: "lower \<le> c \<and> c \<le> upper \<longrightarrow> 0 \<le> p \<and> p \<le> 1"
    by (auto simp: p_def)
  have below: "lower < upper \<and> c < lower \<longrightarrow> p < 0"
    by (simp add: p_def divide_neg_pos)
  have above: "lower < upper \<and> upper < c \<longrightarrow> 1 < p"
    by (simp add: p_def)
  show ?thesis
    using b le f q z inside below above unfolding c_def lower_def [symmetric] upper_def [symmetric]
    by (intro exI [of _ lower] exI [of _ upper] exI [of _ p]) (simp add: lower_def upper_def)
qed

theorem bollinger_position_range_witness:
  "20 \<le> length (candles
     [100, 100, 100, 100, 100, 100, 100, 100, 100, 100,
      100, 100, 100, 100, 100, 100, 95, 99, 99, 107]) \<and>
   (\<exists>p. map_of (detect_volatility (candles
     [100, 100, 100, 100, 100, 100, 100, 100, 100, 100,
      100, 100, 100, 100, 100, 100, 95, 99, 99, 107])) ''bollinger_position'' = Some (Num p) \<and>
        1 < p)"
proof -
  let ?d = "candles
     [100, 100, 100, 100, 100, 100, 100, 100, 100, 100,
      100, 100, 100, 100, 100, 100, 95, 99, 99, 107]"
  have h: "20 \<le> length ?d"
    by (simp add: candles_def)
  have v: "map_of (detect_volatility ?d) ''bollinger_position'' = Some (Num (11 / 8))"
    by (rule bollinger_position_sample)
  obtain p where p: "map_of (detect_volatility ?d) ''bollinger_position'' = Some (Num p)"
    using bollinger_position_range [OF h] by blast
  have "p = 11 / 8" using p v by simp
  then have "1 < p" by simp
  then show ?thesis
    using h p by blast
qed

end
